theory Spec2Isabelle
  imports Complex_Main
begin

section \<open>The Node Agent: process supervision, metrics and its HTTP surface\<close>

text \<open>
  A shallow embedding of \<^verbatim>\<open>agent/node_agent.cpp\<close> (class \<^verbatim>\<open>NodeAgent\<close>) and of the
  HTTP front end (class \<^verbatim>\<open>HttpServer\<close>). Conventions:
  \<^item> \<^verbatim>\<open>long\<close> is \<open>int\<close> with the 64-bit two's complement wrap-around written out where
    the source adds or subtracts (\<open>long_add\<close>, \<open>long_sub\<close>): signed overflow is undefined
    behaviour in C++, and wrapping is what the compiled agent does. \<^verbatim>\<open>sscanf\<close> saturates
    as glibc does. \<^verbatim>\<open>pid_t\<close> is \<open>int\<close>; pids are only compared and stored.
  \<^item> \<^verbatim>\<open>double\<close> is the type \<open>double\<close> below: a real number or one of the three
    non-finite values. Arithmetic on finite values is exact (rounding is not modelled);
    a division by zero yields NaN or an infinity as IEEE 754 prescribes.
  \<^item> Everything the agent asks of its environment (system-call results, the content of
    the kernel's pseudofiles, the clock, the content of locals that were never
    initialised) is read from an oracle \<open>env\<close> that may answer differently at every
    point of the execution: the oracle is a function of the history of effects so far.
  \<^item> Each public operation runs atomically: start, stop, list and reap hold
    \<^verbatim>\<open>processes_mutex\<close> for their whole critical section.
\<close>

subsection \<open>Characters, numbers and the C library scanners\<close>

definition isspace :: "char \<Rightarrow> bool" where
  "isspace c = (c \<in> set [CHR '' '', CHR 0x09, CHR 0x0A, CHR 0x0B, CHR 0x0C, CHR 0x0D])"

definition isdigit :: "char \<Rightarrow> bool" where
  "isdigit c = (c \<in> set ''0123456789'')"

definition digit_val :: "char \<Rightarrow> int" where
  "digit_val c = int (of_char c) - 48"

definition decimal :: "string \<Rightarrow> int" where
  "decimal ds = foldl (\<lambda>a c. 10 * a + digit_val c) 0 ds"

text \<open>\<^verbatim>\<open>c_str()\<close>: the C functions see the string up to its first NUL.\<close>

definition c_str :: "string \<Rightarrow> string" where
  "c_str s = takeWhile (\<lambda>c. c \<noteq> CHR 0x00) s"

text \<open>
  The subject sequence of \<^verbatim>\<open>strtol\<close> in base 10, which is also what the \<^verbatim>\<open>%ld\<close>
  directive of \<^verbatim>\<open>sscanf\<close> accepts: leading white space, an optional sign, at least one
  digit. The result is the mathematical value and the unread rest; \<open>None\<close> when there is
  no digit to convert.
\<close>

definition scan_number :: "string \<Rightarrow> (int \<times> string) option" where
  "scan_number s =
     (let s1 = dropWhile isspace s;
          neg = (s1 \<noteq> [] \<and> hd s1 = CHR ''-'');
          s2 = (if s1 \<noteq> [] \<and> (hd s1 = CHR ''-'' \<or> hd s1 = CHR ''+'') then tl s1 else s1);
          ds = takeWhile isdigit s2
      in if ds = [] then None
         else Some (if neg then - decimal ds else decimal ds, dropWhile isdigit s2))"

definition LONG_MAX :: int where
  "LONG_MAX = 2 ^ 63 - 1"

definition LONG_MIN :: int where
  "LONG_MIN = - (2 ^ 63)"

definition INT_MAX :: int where
  "INT_MAX = 2 ^ 31 - 1"

definition INT_MIN :: int where
  "INT_MIN = - (2 ^ 31)"

definition to_long :: "int \<Rightarrow> int" where
  "to_long v = max LONG_MIN (min LONG_MAX v)"

text \<open>
  Arithmetic on \<^verbatim>\<open>long\<close>: the mathematical result, wrapped into the 64-bit two's
  complement range.
\<close>

definition wrap_long :: "int \<Rightarrow> int" where
  "wrap_long v = (v + 2 ^ 63) mod 2 ^ 64 - 2 ^ 63"

definition long_add :: "int \<Rightarrow> int \<Rightarrow> int" where
  "long_add a b = wrap_long (a + b)"

definition long_sub :: "int \<Rightarrow> int \<Rightarrow> int" where
  "long_sub a b = wrap_long (a - b)"

text \<open>
  \<^verbatim>\<open>sscanf(line.c_str(), "<label> %ld", &x)\<close>: the label must match literally, white
  space is skipped, one \<^verbatim>\<open>long\<close> is converted. \<open>None\<close>: nothing was assigned and \<^verbatim>\<open>x\<close>
  keeps its value.
\<close>

definition sscanf_ld :: "string \<Rightarrow> string \<Rightarrow> int option" where
  "sscanf_ld label line =
     (let s = c_str line in
      if take (length label) s = label
      then map_option (\<lambda>(v, rest). to_long v) (scan_number (drop (length label) s))
      else None)"

text \<open>Up to \<open>n\<close> successive \<^verbatim>\<open>%ld\<close> conversions; the scan stops at the first failure.\<close>

fun scan_lds :: "nat \<Rightarrow> string \<Rightarrow> int list" where
  "scan_lds 0 s = []"
| "scan_lds (Suc n) s =
     (case scan_number s of
        None \<Rightarrow> []
      | Some (v, rest) \<Rightarrow> to_long v # scan_lds n rest)"

text \<open>\<^verbatim>\<open>std::stoi\<close>: \<^verbatim>\<open>strtol\<close>, then the two exceptions it can throw.\<close>

datatype stoi_error = invalid_argument | out_of_range

definition stoi :: "string \<Rightarrow> stoi_error + int" where
  "stoi str =
     (case scan_number (c_str str) of
        None \<Rightarrow> Inl invalid_argument
      | Some (v, rest) \<Rightarrow>
          if v < INT_MIN \<or> INT_MAX < v then Inl out_of_range else Inr v)"

text \<open>\<^verbatim>\<open>std::to_string\<close> and \<^verbatim>\<open>operator<<\<close> on integers: decimal digits.\<close>

fun digits :: "nat \<Rightarrow> string" where
  "digits n =
     (if n < 10 then [char_of (n + 48)]
      else digits (n div 10) @ [char_of (n mod 10 + 48)])"

declare digits.simps [simp del]

definition to_string :: "int \<Rightarrow> string" where
  "to_string i = (if i < 0 then CHR ''-'' # digits (nat (- i)) else digits (nat i))"

text \<open>
  The lines of a stream as successive \<^verbatim>\<open>std::getline\<close> calls deliver them: the
  newline ends a line and is dropped; a last line without a newline is still
  delivered; an empty stream delivers nothing.
\<close>

fun getlines :: "string \<Rightarrow> string list" where
  "getlines [] = []"
| "getlines (c # cs) =
     (if c = CHR 0x0A then [] # getlines cs
      else (case getlines cs of
              [] \<Rightarrow> [[c]]
            | l # ls \<Rightarrow> (c # l) # ls))"

text \<open>\<^verbatim>\<open>std::string::find(pat)\<close>: the index of the first occurrence, \<open>None\<close> for \<^verbatim>\<open>npos\<close>.\<close>

fun str_find :: "string \<Rightarrow> string \<Rightarrow> nat option" where
  "str_find [] pat = (if pat = [] then Some 0 else None)"
| "str_find (c # cs) pat =
     (if take (length pat) (c # cs) = pat then Some 0
      else map_option Suc (str_find cs pat))"

text \<open>\<^verbatim>\<open>line.find(pat) == 0\<close>\<close>

definition starts_with :: "string \<Rightarrow> string \<Rightarrow> bool" where
  "starts_with line pat = (str_find line pat = Some 0)"

subsection \<open>Double precision values\<close>

datatype double = Fin real | PosInf | NegInf | NaN

definition of_long :: "int \<Rightarrow> double" where
  "of_long n = Fin (real_of_int n)"

fun dbl_neg :: "double \<Rightarrow> double" where
  "dbl_neg (Fin x) = Fin (- x)"
| "dbl_neg PosInf = NegInf"
| "dbl_neg NegInf = PosInf"
| "dbl_neg NaN = NaN"

fun dbl_sub :: "double \<Rightarrow> double \<Rightarrow> double" where
  "dbl_sub (Fin x) (Fin y) = Fin (x - y)"
| "dbl_sub NaN _ = NaN"
| "dbl_sub _ NaN = NaN"
| "dbl_sub PosInf PosInf = NaN"
| "dbl_sub NegInf NegInf = NaN"
| "dbl_sub PosInf _ = PosInf"
| "dbl_sub NegInf _ = NegInf"
| "dbl_sub (Fin x) y = dbl_neg y"

fun dbl_scale :: "real \<Rightarrow> double \<Rightarrow> double" where
  "dbl_scale s (Fin y) = Fin (s * y)"
| "dbl_scale s NaN = NaN"
| "dbl_scale s PosInf = (if s = 0 then NaN else if 0 < s then PosInf else NegInf)"
| "dbl_scale s NegInf = (if s = 0 then NaN else if 0 < s then NegInf else PosInf)"

fun dbl_mul :: "double \<Rightarrow> double \<Rightarrow> double" where
  "dbl_mul (Fin x) y = dbl_scale x y"
| "dbl_mul x (Fin y) = dbl_scale y x"
| "dbl_mul NaN _ = NaN"
| "dbl_mul _ NaN = NaN"
| "dbl_mul PosInf PosInf = PosInf"
| "dbl_mul NegInf NegInf = PosInf"
| "dbl_mul PosInf NegInf = NegInf"
| "dbl_mul NegInf PosInf = NegInf"

text \<open>
  Division. A finite value divided by zero is NaN when it is zero itself and an
  infinity of its own sign otherwise (the divisors of this program are converted
  \<^verbatim>\<open>long\<close>s, so a zero divisor is the positive zero).
\<close>

fun dbl_div :: "double \<Rightarrow> double \<Rightarrow> double" where
  "dbl_div (Fin x) (Fin y) =
     (if y = 0 then (if x = 0 then NaN else if 0 < x then PosInf else NegInf)
      else Fin (x / y))"
| "dbl_div NaN _ = NaN"
| "dbl_div _ NaN = NaN"
| "dbl_div (Fin x) _ = Fin 0"
| "dbl_div PosInf (Fin y) = (if 0 \<le> y then PosInf else NegInf)"
| "dbl_div NegInf (Fin y) = (if 0 \<le> y then NegInf else PosInf)"
| "dbl_div _ _ = NaN"

definition is_finite :: "double \<Rightarrow> bool" where
  "is_finite d = (case d of Fin x \<Rightarrow> True | _ \<Rightarrow> False)"

text \<open>\<^verbatim>\<open>d < 0\<close> on doubles: false for NaN, true for the negative infinity.\<close>

definition is_negative :: "double \<Rightarrow> bool" where
  "is_negative d = (case d of Fin x \<Rightarrow> x < 0 | NegInf \<Rightarrow> True | _ \<Rightarrow> False)"

subsection \<open>The process table\<close>

record ProcessInfo =
  pid :: int
  command :: string
  start_time :: string
  status :: string

text \<open>
  \<^verbatim>\<open>std::map<pid_t, ProcessInfo>\<close>: an association list in ascending key order, which is
  the order iteration visits. The tables the operations below build from the empty one
  have strictly ascending keys; the statements proved hold for every list.
\<close>

type_synonym proc_table = "(int \<times> ProcessInfo) list"

text \<open>\<^verbatim>\<open>running_processes.find(p)\<close>\<close>

definition map_find :: "proc_table \<Rightarrow> int \<Rightarrow> ProcessInfo option" where
  "map_find t p = map_of t p"

text \<open>\<^verbatim>\<open>running_processes[p] = info\<close>: insert, or overwrite the entry of an equal key.\<close>

fun map_assign :: "proc_table \<Rightarrow> int \<Rightarrow> ProcessInfo \<Rightarrow> proc_table" where
  "map_assign [] p info = [(p, info)]"
| "map_assign ((k, v) # rest) p info =
     (if p < k then (p, info) # (k, v) # rest
      else if p = k then (p, info) # rest
      else (k, v) # map_assign rest p info)"

text \<open>\<^verbatim>\<open>running_processes.erase(it)\<close> for the iterator of key \<open>p\<close>\<close>

definition map_erase :: "proc_table \<Rightarrow> int \<Rightarrow> proc_table" where
  "map_erase t p = filter (\<lambda>(k, v). k \<noteq> p) t"

subsection \<open>The agent and its environment\<close>

text \<open>
  The effects of the agent, in the order it performs them: the system calls
  (\<open>Kill p s\<close> is \<^verbatim>\<open>kill(p, s)\<close>), the sleeps, the files it opens, its reads of the
  clock, and the insertions into and removals from the process table.
\<close>

datatype event =
    Fork
  | Kill int int
  | SleepMs nat
  | Open string
  | Now
  | Store int
  | Erase int

definition SIGTERM :: int where
  "SIGTERM = 15"

definition SIGKILL :: int where
  "SIGKILL = 9"

text \<open>
  The environment answers a request by looking at the history that ends with the
  request: \<open>sys_ret\<close> is the value the system call returns (\<^verbatim>\<open>fork\<close>, \<^verbatim>\<open>kill\<close>),
  \<open>file_text\<close> the content of the stream just opened (\<open>None\<close> when \<^verbatim>\<open>is_open()\<close> is
  false), \<open>time_text\<close> the formatted local time, \<open>junk\<close> the values found in locals that
  are read without having been initialised, \<open>fmt_double\<close> the text \<^verbatim>\<open>operator<<\<close>
  prints for a double.
\<close>

record env =
  sys_ret :: "event list \<Rightarrow> int"
  file_text :: "event list \<Rightarrow> string option"
  time_text :: "event list \<Rightarrow> string"
  junk :: "event list \<Rightarrow> nat \<Rightarrow> int"
  fmt_double :: "double \<Rightarrow> string"

text \<open>The members of \<^verbatim>\<open>NodeAgent\<close> the operations use, and the history of its effects.\<close>

record NodeAgent =
  running_processes :: proc_table
  prev_total_time :: int
  prev_idle_time :: int
  history :: "event list"

text \<open>The constructor: an empty table, both previous CPU times 0.\<close>

definition new_agent :: NodeAgent where
  "new_agent = \<lparr>running_processes = [], prev_total_time = 0, prev_idle_time = 0, history = []\<rparr>"

definition log_event :: "NodeAgent \<Rightarrow> event \<Rightarrow> NodeAgent" where
  "log_event st e = st\<lparr>history := history st @ [e]\<rparr>"

definition syscall :: "env \<Rightarrow> NodeAgent \<Rightarrow> event \<Rightarrow> int \<times> NodeAgent" where
  "syscall E st e = (let st1 = log_event st e in (sys_ret E (history st1), st1))"

definition get_current_time :: "env \<Rightarrow> NodeAgent \<Rightarrow> string \<times> NodeAgent" where
  "get_current_time E st = (let st1 = log_event st Now in (time_text E (history st1), st1))"

subsection \<open>Process management\<close>

text \<open>
  \<^verbatim>\<open>NodeAgent::start_process\<close>. \<open>None\<close> is the forked child (\<^verbatim>\<open>fork\<close> returned 0): it
  replaces its image by the script or exits, and never returns into the agent.
\<close>

definition start_process :: "env \<Rightarrow> NodeAgent \<Rightarrow> string \<Rightarrow> int option \<times> NodeAgent" where
  "start_process E st script_path =
     (let (p, st1) = syscall E st Fork in
      if p = 0 then (None, st1)
      else if 0 < p then
        (let (t, st2) = get_current_time E st1;
             info = \<lparr>pid = p, command = script_path, start_time = t, status = ''RUNNING''\<rparr>
         in (Some p,
             log_event (st2\<lparr>running_processes := map_assign (running_processes st2) p info\<rparr>)
               (Store p)))
      else (Some (- 1), st1))"

text \<open>\<^verbatim>\<open>NodeAgent::stop_process\<close>\<close>

definition stop_process :: "env \<Rightarrow> NodeAgent \<Rightarrow> int \<Rightarrow> bool \<times> NodeAgent" where
  "stop_process E st p =
     (case map_find (running_processes st) p of
        None \<Rightarrow> (False, st)
      | Some info \<Rightarrow>
          (let (r1, st1) = syscall E st (Kill p SIGTERM) in
           if r1 = 0 then
             (let st2 = log_event st1 (SleepMs 500);
                  (r2, st3) = syscall E st2 (Kill p 0);
                  st4 = (if r2 = 0 then snd (syscall E st3 (Kill p SIGKILL)) else st3)
              in (True,
                  log_event (st4\<lparr>running_processes := map_erase (running_processes st4) p\<rparr>)
                    (Erase p)))
           else (False, st1)))"

text \<open>\<^verbatim>\<open>NodeAgent::get_running_processes\<close>: the records, in iteration order.\<close>

definition get_running_processes :: "NodeAgent \<Rightarrow> ProcessInfo list" where
  "get_running_processes st = map snd (running_processes st)"

text \<open>
  \<^verbatim>\<open>NodeAgent::cleanup_zombie_processes\<close>: the loop over the table from the current
  iterator position; the result is what is left of that part of the table.
\<close>

fun reap_from :: "env \<Rightarrow> proc_table \<Rightarrow> event list \<Rightarrow> proc_table \<times> event list" where
  "reap_from E [] h = ([], h)"
| "reap_from E ((k, v) # rest) h =
     (let h1 = h @ [Kill k 0] in
      if sys_ret E h1 \<noteq> 0 then reap_from E rest (h1 @ [Erase k])
      else (let (kept, h2) = reap_from E rest h1 in ((k, v) # kept, h2)))"

definition cleanup_zombie_processes :: "env \<Rightarrow> NodeAgent \<Rightarrow> NodeAgent" where
  "cleanup_zombie_processes E st =
     (let (kept, h) = reap_from E (running_processes st) (history st)
      in st\<lparr>running_processes := kept, history := h\<rparr>)"

subsection \<open>Metrics\<close>

record SystemMetrics =
  cpu_usage :: double
  memory_usage :: double
  total_memory :: int
  available_memory :: int
  running_processes_count :: int

text \<open>The eight locals of \<^verbatim>\<open>calculate_cpu_usage\<close> that \<^verbatim>\<open>sscanf\<close> fills.\<close>

record cpu_times =
  user :: int
  nice :: int
  system :: int
  idle :: int
  iowait :: int
  irq :: int
  softirq :: int
  steal :: int

text \<open>
  \<^verbatim>\<open>sscanf(line.c_str(), "cpu %ld %ld %ld %ld %ld %ld %ld %ld", ...)\<close>: the values
  converted, in order; fewer than eight when the line ends early or does not start
  with \<^verbatim>\<open>cpu\<close>.
\<close>

definition sscanf_cpu :: "string \<Rightarrow> int list" where
  "sscanf_cpu line =
     (let s = c_str line in
      if take 3 s = ''cpu'' then scan_lds 8 (drop 3 s) else [])"

text \<open>
  The locals after the call: the \<open>i\<close>-th one holds the \<open>i\<close>-th converted value, or what
  it happened to hold before (\<open>g i\<close>) when the scan stopped earlier.
\<close>

definition cpu_locals :: "(nat \<Rightarrow> int) \<Rightarrow> int list \<Rightarrow> cpu_times" where
  "cpu_locals g vs =
     (let pick = (\<lambda>i. if i < length vs then vs ! i else g i) in
      \<lparr>user = pick 0, nice = pick 1, system = pick 2, idle = pick 3,
       iowait = pick 4, irq = pick 5, softirq = pick 6, steal = pick 7\<rparr>)"

text \<open>
  \<^verbatim>\<open>user + nice + system + idle + iowait + irq + softirq + steal\<close> and
  \<^verbatim>\<open>idle + iowait\<close>, added from the left as \<^verbatim>\<open>long\<close>s.
\<close>

definition total_time :: "cpu_times \<Rightarrow> int" where
  "total_time c =
     long_add (long_add (long_add (long_add (long_add (long_add (long_add
       (user c) (nice c)) (system c)) (idle c)) (iowait c)) (irq c)) (softirq c)) (steal c)"

definition idle_time :: "cpu_times \<Rightarrow> int" where
  "idle_time c = long_add (idle c) (iowait c)"

text \<open>
  \<^verbatim>\<open>100.0 * (1.0 - (double)a / b)\<close>. The value is the exact one: the rounding of the
  conversions and of the three operations is not modelled.
\<close>

definition percent_used :: "int \<Rightarrow> int \<Rightarrow> double" where
  "percent_used a b = dbl_mul (Fin 100) (dbl_sub (Fin 1) (dbl_div (of_long a) (of_long b)))"

text \<open>
  The read at the head of \<^verbatim>\<open>calculate_cpu_usage\<close>: the first line of
  \<^verbatim>\<open>/proc/stat\<close> scanned into the eight locals. \<open>None\<close> on the two paths that return
  \<^verbatim>\<open>0.0\<close> at once and leave the previous times alone: the file is not open, or
  \<^verbatim>\<open>getline\<close> delivers no line.
\<close>

definition read_cpu_times :: "env \<Rightarrow> event list \<Rightarrow> cpu_times option" where
  "read_cpu_times E h =
     (case file_text E h of
        None \<Rightarrow> None
      | Some text \<Rightarrow>
          (case getlines text of
             [] \<Rightarrow> None
           | line # others \<Rightarrow> Some (cpu_locals (junk E h) (sscanf_cpu line))))"

text \<open>\<^verbatim>\<open>NodeAgent::calculate_cpu_usage\<close>\<close>

definition calculate_cpu_usage :: "env \<Rightarrow> NodeAgent \<Rightarrow> double \<times> NodeAgent" where
  "calculate_cpu_usage E st =
     (let st1 = log_event st (Open ''/proc/stat'') in
      case read_cpu_times E (history st1) of
        None \<Rightarrow> (Fin 0, st1)
      | Some c \<Rightarrow>
          (let total_diff = long_sub (total_time c) (prev_total_time st1);
               idle_diff = long_sub (idle_time c) (prev_idle_time st1);
               st2 = st1\<lparr>prev_total_time := total_time c, prev_idle_time := idle_time c\<rparr>
           in if 0 < prev_total_time st1 \<and> 0 < total_diff
              then (percent_used idle_diff total_diff, st2)
              else (Fin 0, st2)))"

text \<open>
  The loop both readers of \<^verbatim>\<open>/proc/meminfo\<close> run over its lines, on the pair
  (total, available).
\<close>

fun scan_meminfo :: "string list \<Rightarrow> int \<times> int \<Rightarrow> int \<times> int" where
  "scan_meminfo [] acc = acc"
| "scan_meminfo (line # others) (tm, am) =
     (if starts_with line ''MemTotal:''
      then scan_meminfo others
             (case sscanf_ld ''MemTotal:'' line of None \<Rightarrow> tm | Some v \<Rightarrow> v, am)
      else if starts_with line ''MemAvailable:''
      then scan_meminfo others
             (tm, case sscanf_ld ''MemAvailable:'' line of None \<Rightarrow> am | Some v \<Rightarrow> v)
      else scan_meminfo others (tm, am))"

text \<open>\<^verbatim>\<open>NodeAgent::calculate_memory_usage\<close>\<close>

definition calculate_memory_usage :: "env \<Rightarrow> NodeAgent \<Rightarrow> double \<times> NodeAgent" where
  "calculate_memory_usage E st =
     (let st1 = log_event st (Open ''/proc/meminfo'') in
      case file_text E (history st1) of
        None \<Rightarrow> (Fin 0, st1)
      | Some text \<Rightarrow>
          (let (tm, am) = scan_meminfo (getlines text) (0, 0) in
           if 0 < tm then (percent_used am tm, st1) else (Fin 0, st1)))"

text \<open>
  \<^verbatim>\<open>NodeAgent::get_system_metrics\<close>. The struct is not initialised: its two memory
  fields start from whatever the stack holds.
\<close>

definition get_system_metrics :: "env \<Rightarrow> NodeAgent \<Rightarrow> SystemMetrics \<times> NodeAgent" where
  "get_system_metrics E st =
     (let g = junk E (history st);
          (cpu, st1) = calculate_cpu_usage E st;
          (mem, st2) = calculate_memory_usage E st1;
          st3 = log_event st2 (Open ''/proc/meminfo'');
          (tm, am) = (case file_text E (history st3) of
                        None \<Rightarrow> (g 0, g 1)
                      | Some text \<Rightarrow> scan_meminfo (getlines text) (g 0, g 1))
      in (\<lparr>cpu_usage = cpu, memory_usage = mem, total_memory = tm, available_memory = am,
           running_processes_count = int (length (running_processes st3))\<rparr>, st3))"

subsection \<open>The HTTP front end\<close>

text \<open>
  A response is kept as its status code and its JSON content; \<open>wire_format\<close> is the
  text \<^verbatim>\<open>HttpServer::create_json_response\<close> builds from the two.
\<close>

record http_response =
  status_code :: int
  content :: string

definition create_json_response :: "string \<Rightarrow> int \<Rightarrow> http_response" where
  "create_json_response data code = \<lparr>status_code = code, content = data\<rparr>"

definition status_text :: "int \<Rightarrow> string" where
  "status_text code =
     (if code = 200 then ''OK''
      else if code = 400 then ''Bad Request''
      else if code = 404 then ''Not Found''
      else if code = 500 then ''Internal Server Error''
      else ''Unknown'')"

definition CRLF :: string where
  "CRLF = [CHR 0x0D, CHR 0x0A]"

definition wire_format :: "http_response \<Rightarrow> string" where
  "wire_format r =
     ''HTTP/1.1 '' @ to_string (status_code r) @ '' '' @ status_text (status_code r) @ CRLF
     @ ''Content-Type: application/json'' @ CRLF
     @ ''Content-Length: '' @ to_string (int (length (content r))) @ CRLF
     @ ''Access-Control-Allow-Origin: *'' @ CRLF
     @ ''Access-Control-Allow-Methods: GET, POST, DELETE'' @ CRLF
     @ ''Access-Control-Allow-Headers: Content-Type'' @ CRLF
     @ CRLF
     @ content r"

definition create_error_response :: "string \<Rightarrow> int \<Rightarrow> http_response" where
  \<open>create_error_response err code = create_json_response (''{"error":"'' @ err @ ''"}'') code\<close>

text \<open>\<^verbatim>\<open>HttpServer::parse_json_field\<close>\<close>

definition parse_json_field :: "string \<Rightarrow> string \<Rightarrow> string" where
  \<open>parse_json_field json field =
     (let pattern = ''"'' @ field @ ''":'' in
      case str_find json pattern of
        None \<Rightarrow> []
      | Some pos \<Rightarrow>
          (let rest = dropWhile (\<lambda>c. c = CHR '' '' \<or> c = CHR 0x09)
                        (drop (pos + length pattern) json)
           in case rest of
                [] \<Rightarrow> []
              | c # cs \<Rightarrow>
                  if c = CHR ''"''
                  then (if CHR ''"'' \<in> set cs then takeWhile (\<lambda>d. d \<noteq> CHR ''"'') cs else [])
                  else takeWhile (\<lambda>d. isdigit d \<or> d = CHR ''.'' \<or> d = CHR ''-'') rest))\<close>

text \<open>The body of the answer to \<^verbatim>\<open>GET /status\<close>\<close>

definition process_json :: "ProcessInfo \<Rightarrow> string" where
  \<open>process_json p =
     ''{"pid":'' @ to_string (pid p) @ '',"command":"'' @ command p
     @ ''","start_time":"'' @ start_time p @ ''","status":"'' @ status p @ ''"}''\<close>

fun join_comma :: "string list \<Rightarrow> string" where
  "join_comma [] = []"
| "join_comma [x] = x"
| "join_comma (x # y # others) = x @ '','' @ join_comma (y # others)"

definition status_json :: "env \<Rightarrow> SystemMetrics \<Rightarrow> ProcessInfo list \<Rightarrow> string" where
  \<open>status_json E m processes =
     ''{"cpu_usage":'' @ fmt_double E (cpu_usage m)
     @ '',"memory_usage":'' @ fmt_double E (memory_usage m)
     @ '',"total_memory":'' @ to_string (total_memory m)
     @ '',"available_memory":'' @ to_string (available_memory m)
     @ '',"running_processes":'' @ to_string (int (length processes))
     @ '',"processes":['' @ join_comma (map process_json processes) @ '']}''\<close>

text \<open>\<^verbatim>\<open>HttpServer::handle_status_request\<close>\<close>

definition handle_status_request :: "env \<Rightarrow> NodeAgent \<Rightarrow> http_response \<times> NodeAgent" where
  "handle_status_request E st =
     (let (metrics, st1) = get_system_metrics E st;
          processes = get_running_processes st1
      in (create_json_response (status_json E metrics processes) 200, st1))"

text \<open>
  \<^verbatim>\<open>HttpServer::handle_start_request\<close>. No response (\<open>None\<close>) in the forked child, which
  never returns from \<^verbatim>\<open>start_process\<close>.
\<close>

definition handle_start_request ::
  "env \<Rightarrow> NodeAgent \<Rightarrow> string \<Rightarrow> http_response option \<times> NodeAgent" where
  \<open>handle_start_request E st body =
     (let script_path = parse_json_field body ''script_path'' in
      if script_path = [] then (Some (create_error_response ''Missing script_path field'' 400), st)
      else (case start_process E st script_path of
              (None, st1) \<Rightarrow> (None, st1)
            | (Some p, st1) \<Rightarrow>
                if 0 < p
                then (Some (create_json_response
                              (''{"pid":'' @ to_string p @ '',"status":"started"}'') 200), st1)
                else (Some (create_error_response ''Failed to start process'' 500), st1)))\<close>

text \<open>\<^verbatim>\<open>HttpServer::handle_stop_request\<close>; both exceptions of \<^verbatim>\<open>std::stoi\<close> are caught.\<close>

definition handle_stop_request :: "env \<Rightarrow> NodeAgent \<Rightarrow> string \<Rightarrow> http_response \<times> NodeAgent" where
  \<open>handle_stop_request E st body =
     (let pid_str = parse_json_field body ''pid'' in
      if pid_str = [] then (create_error_response ''Missing pid field'' 400, st)
      else (case stoi pid_str of
              Inl e \<Rightarrow> (create_error_response ''Invalid PID format'' 400, st)
            | Inr p \<Rightarrow>
                (let (ok, st1) = stop_process E st p in
                 if ok then (create_json_response ''{"status":"stopped"}'' 200, st1)
                 else (create_error_response ''Failed to stop process'' 500, st1))))\<close>

text \<open>
  The routing at the end of \<^verbatim>\<open>HttpServer::handle_client\<close>, on the method, the path and
  the body it has read from the socket. The handlers are modelled for every body.
  (As \<^verbatim>\<open>handle_client\<close> is written, its header loop stops at the rest of the request
  line, so for a well-formed request it sees no Content-Length and the body it hands
  on is empty.)
\<close>

record http_request =
  req_method :: string
  req_path :: string
  req_body :: string

definition handle_request ::
  "env \<Rightarrow> NodeAgent \<Rightarrow> http_request \<Rightarrow> http_response option \<times> NodeAgent" where
  "handle_request E st rq =
     (if req_method rq = ''GET'' \<and> req_path rq = ''/status''
      then (let (r, st1) = handle_status_request E st in (Some r, st1))
      else if req_method rq = ''POST'' \<and> req_path rq = ''/start''
      then handle_start_request E st (req_body rq)
      else if req_method rq = ''POST'' \<and> req_path rq = ''/stop''
      then (let (r, st1) = handle_stop_request E st (req_body rq) in (Some r, st1))
      else (Some (create_error_response ''Not Found'' 404), st))"

text \<open>
  The server process answering a sequence of requests. The HTTP deployment
  (\<^verbatim>\<open>agent/main.cpp\<close>) starts the HTTP server only, so there the table changes
  through these handlers alone. A forked child leaves the sequence.
\<close>

fun serve_all :: "env \<Rightarrow> NodeAgent \<Rightarrow> http_request list \<Rightarrow> NodeAgent" where
  "serve_all E st [] = st"
| "serve_all E st (rq # others) =
     (case handle_request E st rq of
        (None, st1) \<Rightarrow> st1
      | (Some r, st1) \<Rightarrow> serve_all E st1 others)"

subsection \<open>Sequences of operations on the agent\<close>

datatype agent_op = Start string | Stop int | Snapshot | Reap

text \<open>One operation; \<open>None\<close> when the caller has become the forked child.\<close>

definition step :: "env \<Rightarrow> NodeAgent \<Rightarrow> agent_op \<Rightarrow> NodeAgent option" where
  "step E st a =
     (case a of
        Start script_path \<Rightarrow>
          (case start_process E st script_path of
             (None, st1) \<Rightarrow> None
           | (Some p, st1) \<Rightarrow> Some st1)
      | Stop p \<Rightarrow> Some (snd (stop_process E st p))
      | Snapshot \<Rightarrow> Some (snd (handle_status_request E st))
      | Reap \<Rightarrow> Some (cleanup_zombie_processes E st))"

fun run :: "env \<Rightarrow> NodeAgent \<Rightarrow> agent_op list \<Rightarrow> NodeAgent" where
  "run E st [] = st"
| "run E st (a # others) =
     (case step E st a of
        None \<Rightarrow> st
      | Some st1 \<Rightarrow> run E st1 others)"

section \<open>Properties\<close>

subsection \<open>Predicates the statements use\<close>

text \<open>
  The table invariant: every entry is keyed by the pid its record carries, and the
  record's status is the string RUNNING.
\<close>

definition table_inv :: "proc_table \<Rightarrow> bool" where
  "table_inv t = (\<forall>(k, v) \<in> set t. pid v = k \<and> status v = ''RUNNING'')"

text \<open>A request that the routing hands to the start or to the stop handler.\<close>

definition is_start_or_stop :: "http_request \<Rightarrow> bool" where
  "is_start_or_stop rq =
     (req_method rq = ''POST'' \<and> (req_path rq = ''/start'' \<or> req_path rq = ''/stop''))"

text \<open>A response of the 4xx class.\<close>

definition is_4xx :: "http_response \<Rightarrow> bool" where
  "is_4xx r = (400 \<le> status_code r \<and> status_code r < 500)"

text \<open>A value that fits a signed 64-bit \<^verbatim>\<open>long\<close>.\<close>

definition fits_long :: "int \<Rightarrow> bool" where
  "fits_long v = (LONG_MIN \<le> v \<and> v \<le> LONG_MAX)"

text \<open>
  The specification's total of a sample, the sum of its eight counters, and its idle
  time with iowait, as numbers.
\<close>

definition counter_sum :: "cpu_times \<Rightarrow> int" where
  "counter_sum c = user c + nice c + system c + idle c + iowait c + irq c + softirq c + steal c"

definition idle_sum :: "cpu_times \<Rightarrow> int" where
  "idle_sum c = idle c + iowait c"

text \<open>
  The CPU percentage as the specification words it, for two successive samples:
  \<^verbatim>\<open>100 * (1 - \<Delta>idle_with_iowait / \<Delta>total)\<close>, in double precision.
\<close>

definition spec_cpu_percent :: "cpu_times \<Rightarrow> cpu_times \<Rightarrow> double" where
  "spec_cpu_percent c0 c1 =
     dbl_mul (Fin 100)
       (dbl_sub (Fin 1)
          (dbl_div (Fin (real_of_int (idle_sum c1 - idle_sum c0)))
                   (Fin (real_of_int (counter_sum c1 - counter_sum c0)))))"

subsection \<open>Concrete scenarios\<close>

definition is_open_event :: "event \<Rightarrow> bool" where
  "is_open_event e = (case e of Open f \<Rightarrow> True | _ \<Rightarrow> False)"

text \<open>
  An environment in which every signal is delivered, \<^verbatim>\<open>fork\<close> returns a fresh positive
  pid, and the \<open>k\<close>-th file the agent opens has the \<open>k\<close>-th of the given contents
  (\<open>None\<close>: it cannot be opened). Locals that are not initialised hold 0.
\<close>

definition scripted_env :: "string option list \<Rightarrow> env" where
  "scripted_env texts =
     \<lparr>sys_ret = (\<lambda>h. case last h of Fork \<Rightarrow> 4000 + int (length h) | _ \<Rightarrow> 0),
      file_text = (\<lambda>h. let k = length (filter is_open_event h)
                        in if 0 < k \<and> k \<le> length texts then texts ! (k - 1) else None),
      time_text = (\<lambda>h. ''2024-05-01 12:00:00''),
      junk = (\<lambda>h i. 0),
      fmt_double = (\<lambda>d. ''0'')\<rparr>"

definition env_alive :: env where
  "env_alive = scripted_env []"

definition info7 :: ProcessInfo where
  "info7 = \<lparr>pid = 7, command = ''./work.sh'', start_time = ''2024-05-01 12:00:00'',
            status = ''RUNNING''\<rparr>"

definition agent7 :: NodeAgent where
  "agent7 = new_agent\<lparr>running_processes := [(7, info7)]\<rparr>"

definition demo_ops :: "agent_op list" where
  "demo_ops = [Start ''./work.sh'', Start ''./other.sh'', Stop 4001, Reap]"

definition stop42 :: string where
  \<open>stop42 = ''{"pid":42}''\<close>

definition stop43 :: string where
  \<open>stop43 = ''{"pid": "43"}''\<close>

definition stop_big :: string where
  \<open>stop_big = ''{"pid":2147483648}''\<close>

definition stop_spaced :: string where
  \<open>stop_spaced = ''{"pid" : 42}''\<close>

definition start_empty :: string where
  \<open>start_empty = ''{"script_path": ""}''\<close>

definition start_missing :: string where
  \<open>start_missing = ''{"path":"./work.sh"}''\<close>

definition start_empty_nl :: string where
  \<open>start_empty_nl = ''{"script_path":'' @ [CHR 0x0A] @ ''""}''\<close>

definition start_nested :: string where
  \<open>start_nested = ''{"job":{"script_path":"/bin/ls"}}''\<close>

definition get_status :: http_request where
  "get_status = \<lparr>req_method = ''GET'', req_path = ''/status'', req_body = []\<rparr>"

definition get_other :: http_request where
  "get_other = \<lparr>req_method = ''GET'', req_path = ''/metrics'', req_body = []\<rparr>"

text \<open>
  First lines of \<^verbatim>\<open>/proc/stat\<close> (user, nice, system, idle, iowait, irq, softirq, steal and
  the two guest fields the agent does not read), and the locals they scan into.
\<close>

definition stat_zero :: string where
  "stat_zero = ''cpu  0 0 0 0 0 0 0 0 0 0''"

definition stat_10_10 :: string where
  "stat_10_10 = ''cpu  10 0 0 10 0 0 0 0 0 0''"

definition stat_50_50 :: string where
  "stat_50_50 = ''cpu  50 0 0 50 0 0 0 0 0 0''"

definition stat_40_70 :: string where
  "stat_40_70 = ''cpu  40 0 0 70 0 0 0 0 0 0''"

definition stat_40_80 :: string where
  "stat_40_80 = ''cpu  40 0 0 80 0 0 0 0 0 0''"

definition stat_80_70 :: string where
  "stat_80_70 = ''cpu  80 0 0 70 0 0 0 0 0 0''"

definition sample :: "int \<Rightarrow> int \<Rightarrow> cpu_times" where
  "sample u i = \<lparr>user = u, nice = 0, system = 0, idle = i, iowait = 0, irq = 0, softirq = 0,
                 steal = 0\<rparr>"

text \<open>An agent whose two reads of \<^verbatim>\<open>/proc/stat\<close> see the two given lines.\<close>

definition env_stat :: "string \<Rightarrow> string \<Rightarrow> env" where
  "env_stat l0 l1 = scripted_env [Some l0, Some l1]"

definition after_first_read :: "env \<Rightarrow> NodeAgent" where
  "after_first_read E = snd (calculate_cpu_usage E new_agent)"

text \<open>Contents of \<^verbatim>\<open>/proc/meminfo\<close>.\<close>

definition meminfo_half :: string where
  "meminfo_half =
     ''MemTotal:       100 kB'' @ [CHR 0x0A]
     @ ''MemFree:        7 kB'' @ [CHR 0x0A]
     @ ''MemAvailable:   50 kB'' @ [CHR 0x0A]"

definition meminfo_over :: string where
  "meminfo_over =
     ''MemTotal:       100 kB'' @ [CHR 0x0A]
     @ ''MemFree:        7 kB'' @ [CHR 0x0A]
     @ ''MemAvailable:   200 kB'' @ [CHR 0x0A]"

definition meminfo_no_total :: string where
  "meminfo_no_total =
     ''MemFree:        7 kB'' @ [CHR 0x0A]
     @ ''MemAvailable:   50 kB'' @ [CHR 0x0A]"

definition stat_open :: "event list" where
  "stat_open = [Open ''/proc/stat'']"

definition meminfo_open :: "event list" where
  "meminfo_open = [Open ''/proc/meminfo'']"

subsection \<open>Auxiliary facts\<close>

lemma table_inv_assign:
  "table_inv t \<Longrightarrow> pid info = p \<Longrightarrow> status info = ''RUNNING'' \<Longrightarrow> table_inv (map_assign t p info)"
  by (induction t p info rule: map_assign.induct) (auto simp: table_inv_def)

lemma table_inv_erase: "table_inv t \<Longrightarrow> table_inv (map_erase t p)"
  by (auto simp: table_inv_def map_erase_def)

lemma reap_from_subset: "set (fst (reap_from E t h)) \<subseteq> set t"
proof (induction E t h rule: reap_from.induct)
  case (1 E h)
  show ?case by simp
next
  case (2 E k v rest h)
  show ?case
  proof (cases "sys_ret E (h @ [Kill k 0]) \<noteq> 0")
    case True
    with "2.IH"(1) show ?thesis by (auto simp: Let_def)
  next
    case False
    with "2.IH"(2) [of "h @ [Kill k 0]"] show ?thesis
      by (auto simp: Let_def case_prod_beta)
  qed
qed

lemma table_inv_reap: "table_inv t \<Longrightarrow> table_inv (fst (reap_from E t h))"
  using reap_from_subset [of E t h] by (auto simp: table_inv_def)

lemma log_event_table [simp]: "running_processes (log_event st e) = running_processes st"
  by (simp add: log_event_def)

lemma cpu_keeps_table [simp]:
  "running_processes (snd (calculate_cpu_usage E st)) = running_processes st"
  by (simp add: calculate_cpu_usage_def Let_def split: option.splits)

lemma mem_keeps_state: "snd (calculate_memory_usage E st) = log_event st (Open ''/proc/meminfo'')"
  by (simp add: calculate_memory_usage_def Let_def case_prod_beta split: option.splits)

lemma metrics_keeps_table [simp]:
  "running_processes (snd (get_system_metrics E st)) = running_processes st"
  by (simp add: get_system_metrics_def Let_def case_prod_beta mem_keeps_state)

lemma status_keeps_table [simp]:
  "running_processes (snd (handle_status_request E st)) = running_processes st"
  by (simp add: handle_status_request_def Let_def case_prod_beta)

lemma start_keeps_inv:
  "table_inv (running_processes st) \<Longrightarrow> table_inv (running_processes (snd (start_process E st s)))"
  by (simp add: start_process_def syscall_def get_current_time_def Let_def case_prod_beta
      table_inv_assign)

lemma stop_keeps_inv:
  "table_inv (running_processes st) \<Longrightarrow> table_inv (running_processes (snd (stop_process E st p)))"
  by (simp add: stop_process_def syscall_def Let_def case_prod_beta table_inv_erase
      split: option.splits)

lemma reap_keeps_inv:
  "table_inv (running_processes st) \<Longrightarrow> table_inv (running_processes (cleanup_zombie_processes E st))"
  by (simp add: cleanup_zombie_processes_def case_prod_beta table_inv_reap)

lemma step_keeps_inv:
  assumes "table_inv (running_processes st)" and "step E st a = Some st1"
  shows "table_inv (running_processes st1)"
proof (cases a)
  case (Start s)
  with assms(2) have "st1 = snd (start_process E st s)"
    by (auto simp: step_def split: prod.splits option.splits)
  with assms(1) show ?thesis by (simp add: start_keeps_inv)
next
  case (Stop p)
  with assms show ?thesis by (auto simp: step_def stop_keeps_inv)
next
  case Snapshot
  with assms show ?thesis by (auto simp: step_def)
next
  case Reap
  with assms show ?thesis by (auto simp: step_def reap_keeps_inv)
qed

lemma run_keeps_inv:
  "table_inv (running_processes st) \<Longrightarrow> table_inv (running_processes (run E st ops))"
proof (induction ops arbitrary: st)
  case Nil
  then show ?case by simp
next
  case (Cons a ops)
  show ?case
  proof (cases "step E st a")
    case None
    with Cons.prems show ?thesis by simp
  next
    case (Some st1)
    with Cons.prems have "table_inv (running_processes st1)"
      by (rule step_keeps_inv)
    with Some show ?thesis by (simp add: Cons.IH)
  qed
qed

lemma percent_used_pos:
  "b \<noteq> 0 \<Longrightarrow> percent_used a b = Fin (100 * (1 - real_of_int a / real_of_int b))"
  by (simp add: percent_used_def of_long_def)

lemma non_start_stop_keeps_table:
  assumes "\<not> is_start_or_stop rq"
  shows "\<exists>r. fst (handle_request E st rq) = Some r"
    and "running_processes (snd (handle_request E st rq)) = running_processes st"
  using assms by (auto simp: handle_request_def is_start_or_stop_def case_prod_beta)

lemma serve_all_keeps_table:
  "\<forall>rq \<in> set reqs. \<not> is_start_or_stop rq \<Longrightarrow>
   running_processes (serve_all E st reqs) = running_processes st"
proof (induction reqs arbitrary: st)
  case Nil
  show ?case by simp
next
  case (Cons rq reqs)
  then have n: "\<not> is_start_or_stop rq" by simp
  obtain r st1 where h: "handle_request E st rq = (Some r, st1)"
    using non_start_stop_keeps_table(1) [OF n, of E st] by (cases "handle_request E st rq") auto
  with non_start_stop_keeps_table(2) [OF n, of E st]
  have "running_processes st1 = running_processes st" by simp
  with h Cons show ?case by simp
qed

subsection \<open>Stopping a process\<close>

text \<open>
  C1. When the pid is in the table and the SIGTERM is delivered, \<open>stop_process\<close> returns
  true, and what it has done by then is, in this order: the SIGTERM, the sleep of
  500 ms, the zero-signal test, the SIGKILL when and only when that test returned 0,
  and the removal of the record. The return value exists only together with that
  complete sequence, so stop never returns before the kill step.
\<close>

theorem stop_process_order:
  assumes "map_find (running_processes st) p = Some info"
    and "sys_ret E (history st @ [Kill p SIGTERM]) = 0"
  shows "stop_process E st p =
    (True,
     st\<lparr>running_processes := map_erase (running_processes st) p,
        history := history st @ [Kill p SIGTERM, SleepMs 500, Kill p 0]
          @ (if sys_ret E (history st @ [Kill p SIGTERM, SleepMs 500, Kill p 0]) = 0
             then [Kill p SIGKILL] else [])
          @ [Erase p]\<rparr>)"
  using assms by (simp add: stop_process_def syscall_def log_event_def Let_def)

theorem stop_process_order_witness:
  "map_find (running_processes agent7) 7 = Some info7
   \<and> sys_ret env_alive (history agent7 @ [Kill 7 SIGTERM]) = 0
   \<and> stop_process env_alive agent7 7 =
       (True, new_agent\<lparr>history := [Kill 7 15, SleepMs 500, Kill 7 0, Kill 7 9, Erase 7]\<rparr>)"
proof -
  have a: "map_find (running_processes agent7) 7 = Some info7"
    by (simp add: agent7_def map_find_def)
  have b: "sys_ret env_alive (history agent7 @ [Kill 7 SIGTERM]) = 0"
    by (simp add: env_alive_def scripted_env_def)
  show ?thesis
    using a b stop_process_order [OF a b]
    by (simp add: agent7_def new_agent_def env_alive_def scripted_env_def map_erase_def
        SIGTERM_def SIGKILL_def)
qed

text \<open>
  C2, as the code has it. The stop handler reads the pid from the body with
  \<open>parse_json_field\<close> and \<^verbatim>\<open>std::stoi\<close>. When it reads a pid that is not in the table, it
  answers with the 500 error "Failed to stop process". When it reads none, it answers
  with a 400 error: the scanner finds no value after the text \<^verbatim>\<open>"pid":\<close>, or
  \<^verbatim>\<open>std::stoi\<close> rejects the value (not a number, or outside \<^verbatim>\<open>int\<close>). In each of these
  cases the agent is left as it was: the table is unchanged and no signal has been
  sent.
\<close>

theorem stop_unknown_pid:
  "(parse_json_field body ''pid'' = [] \<longrightarrow>
      handle_stop_request E st body = (create_error_response ''Missing pid field'' 400, st))
   \<and> (\<forall>e. parse_json_field body ''pid'' \<noteq> [] \<longrightarrow>
          stoi (parse_json_field body ''pid'') = Inl e \<longrightarrow>
          handle_stop_request E st body = (create_error_response ''Invalid PID format'' 400, st))
   \<and> (\<forall>p. parse_json_field body ''pid'' \<noteq> [] \<longrightarrow>
          stoi (parse_json_field body ''pid'') = Inr p \<longrightarrow>
          map_find (running_processes st) p = None \<longrightarrow>
          handle_stop_request E st body =
            (create_error_response ''Failed to stop process'' 500, st)
          \<and> status_code (fst (handle_stop_request E st body)) = 500)"
  by (simp add: handle_stop_request_def stop_process_def Let_def create_error_response_def
      create_json_response_def)

theorem stop_unknown_pid_witness:
  "parse_json_field stop43 ''pid'' \<noteq> []
   \<and> stoi (parse_json_field stop43 ''pid'') = Inr 43
   \<and> map_find (running_processes agent7) 43 = None
   \<and> handle_stop_request env_alive agent7 stop43 =
       (create_error_response ''Failed to stop process'' 500, agent7)
   \<and> status_code (fst (handle_stop_request env_alive agent7 stop43)) = 500
   \<and> parse_json_field stop_big ''pid'' \<noteq> []
   \<and> stoi (parse_json_field stop_big ''pid'') = Inl out_of_range
   \<and> handle_stop_request env_alive agent7 stop_big =
       (create_error_response ''Invalid PID format'' 400, agent7)
   \<and> parse_json_field stop_spaced ''pid'' = []
   \<and> handle_stop_request env_alive agent7 stop_spaced =
       (create_error_response ''Missing pid field'' 400, agent7)"
proof -
  have a: "parse_json_field stop43 ''pid'' \<noteq> []" by code_simp
  have b: "stoi (parse_json_field stop43 ''pid'') = Inr 43" by code_simp
  have c: "map_find (running_processes agent7) 43 = None"
    by (simp add: agent7_def map_find_def)
  have d: "parse_json_field stop_big ''pid'' \<noteq> []" by code_simp
  have e: "stoi (parse_json_field stop_big ''pid'') = Inl out_of_range" by code_simp
  have f: "parse_json_field stop_spaced ''pid'' = []" by code_simp
  show ?thesis
    using a b c d e f
      stop_unknown_pid [of stop43 env_alive agent7]
      stop_unknown_pid [of stop_big env_alive agent7]
      stop_unknown_pid [of stop_spaced env_alive agent7]
    by (simp add: create_error_response_def create_json_response_def)
qed

text \<open>
  The specification asks for a 4xx answer here (C2). That does not hold: pid 42 is not in
  the empty table of a new agent, and the answer to the request is a 500.
\<close>

theorem stop_unknown_pid_counterexample:
  "stoi (parse_json_field stop42 ''pid'') = Inr 42
   \<and> map_find (running_processes new_agent) 42 = None
   \<and> status_code (fst (handle_stop_request env_alive new_agent stop42)) = 500
   \<and> \<not> is_4xx (fst (handle_stop_request env_alive new_agent stop42))"
  by code_simp

subsection \<open>Starting a process\<close>

text \<open>
  C8, as the code has it. The start handler reads the path from the body with
  \<open>parse_json_field\<close>. Whenever what it reads is empty (for instance because the text
  \<^verbatim>\<open>"script_path":\<close> occurs nowhere in the body, or because an empty string literal
  follows it), it answers with the 400 error, and the agent is left as it was: no
  \<^verbatim>\<open>fork\<close> has been issued (the history is unchanged) and the table is unchanged.
\<close>

theorem start_without_script_path:
  assumes "parse_json_field body ''script_path'' = []"
  shows "handle_start_request E st body =
           (Some (create_error_response ''Missing script_path field'' 400), st)
       \<and> map_option status_code (fst (handle_start_request E st body)) = Some 400"
  using assms
  by (simp add: handle_start_request_def create_error_response_def create_json_response_def)

theorem start_without_script_path_witness:
  "parse_json_field start_missing ''script_path'' = []
   \<and> handle_start_request env_alive agent7 start_missing =
       (Some (create_error_response ''Missing script_path field'' 400), agent7)
   \<and> parse_json_field start_empty ''script_path'' = []
   \<and> handle_start_request env_alive agent7 start_empty =
       (Some (create_error_response ''Missing script_path field'' 400), agent7)
   \<and> parse_json_field start_empty_nl ''script_path'' = []
   \<and> handle_start_request env_alive agent7 start_empty_nl =
       (Some (create_error_response ''Missing script_path field'' 400), agent7)"
proof -
  have a: "parse_json_field start_missing ''script_path'' = []" by code_simp
  have b: "parse_json_field start_empty ''script_path'' = []" by code_simp
  have c: "parse_json_field start_empty_nl ''script_path'' = []" by code_simp
  show ?thesis
    using a b c
      start_without_script_path [OF a, of env_alive agent7]
      start_without_script_path [OF b, of env_alive agent7]
      start_without_script_path [OF c, of env_alive agent7]
    by simp
qed

text \<open>
  The specification has the 400 answer for every body with a missing script_path
  field (C8). That does not hold: the scanner looks for the key text anywhere in the
  body. The object below has the single field "job" and no script_path field of its
  own, yet the handler reads the nested path, forks, stores the child and answers 200.
\<close>

theorem start_nested_counterexample:
  "parse_json_field start_nested ''script_path'' = ''/bin/ls''
   \<and> map_option status_code (fst (handle_start_request env_alive new_agent start_nested))
       = Some 200
   \<and> history (snd (handle_start_request env_alive new_agent start_nested))
       = [Fork, Now, Store 4001]
   \<and> map_option command
        (map_find (running_processes
           (snd (handle_start_request env_alive new_agent start_nested))) 4001)
       = Some ''/bin/ls''"
proof -
  have p: "parse_json_field start_nested ''script_path'' = ''/bin/ls''"
    by code_simp
  have s: "start_process env_alive new_agent ''/bin/ls'' =
      (Some 4001,
       \<lparr>running_processes =
          [(4001, \<lparr>pid = 4001, command = ''/bin/ls'', start_time = ''2024-05-01 12:00:00'',
                   status = ''RUNNING''\<rparr>)],
        prev_total_time = 0, prev_idle_time = 0, history = [Fork, Now, Store 4001]\<rparr>)"
    by code_simp
  show ?thesis
    by (simp add: handle_start_request_def p s create_json_response_def map_find_def)
qed

subsection \<open>Status snapshots\<close>

text \<open>
  C9. Two status requests with, in between, any requests that are neither start nor
  stop requests: both answers are the JSON of their own metrics and of one and the
  same process list, the records of the table in key order. (The server handles
  nothing but requests; the reaper of \<^verbatim>\<open>NodeAgent::run_server\<close>, which could drop
  records in between, is not part of it.)
\<close>

theorem status_lists_identical:
  assumes "\<forall>rq \<in> set reqs. \<not> is_start_or_stop rq"
  shows "content (fst (handle_status_request E st)) =
           status_json E (fst (get_system_metrics E st)) (get_running_processes st)
       \<and> content (fst (handle_status_request E
                          (serve_all E (snd (handle_status_request E st)) reqs))) =
           status_json E
             (fst (get_system_metrics E (serve_all E (snd (handle_status_request E st)) reqs)))
             (get_running_processes st)"
proof -
  have "running_processes (serve_all E (snd (handle_status_request E st)) reqs) =
        running_processes st"
    using serve_all_keeps_table [OF assms] by simp
  then show ?thesis
    by (simp add: handle_status_request_def Let_def case_prod_beta create_json_response_def
        get_running_processes_def)
qed

theorem status_lists_identical_witness:
  "\<not> is_start_or_stop get_other
   \<and> \<not> is_start_or_stop get_status
   \<and> get_running_processes agent7 = [info7]
   \<and> content (fst (handle_status_request env_alive agent7)) =
       status_json env_alive (fst (get_system_metrics env_alive agent7)) [info7]
   \<and> content (fst (handle_status_request env_alive
         (serve_all env_alive (snd (handle_status_request env_alive agent7))
            [get_other, get_status]))) =
       status_json env_alive
         (fst (get_system_metrics env_alive
            (serve_all env_alive (snd (handle_status_request env_alive agent7))
               [get_other, get_status])))
         [info7]"
proof -
  have a: "\<forall>rq \<in> set [get_other, get_status]. \<not> is_start_or_stop rq"
    by (simp add: is_start_or_stop_def get_other_def get_status_def)
  have b: "get_running_processes agent7 = [info7]"
    by (simp add: get_running_processes_def agent7_def)
  have c: "\<not> is_start_or_stop get_other \<and> \<not> is_start_or_stop get_status"
    by (simp add: is_start_or_stop_def get_other_def get_status_def)
  show ?thesis
    using b c status_lists_identical [OF a, of env_alive agent7] by simp
qed

subsection \<open>The table invariant\<close>

text \<open>
  C10. Starting from the empty table of a new agent, after any sequence of start,
  stop, snapshot and reap operations, under any behaviour of the environment, every
  entry of the table is keyed by its record's pid and has the status RUNNING.
\<close>

theorem table_invariant:
  "table_inv (running_processes (run E new_agent ops))"
  by (rule run_keeps_inv) (simp add: table_inv_def new_agent_def)

theorem table_invariant_witness:
  "running_processes (run env_alive new_agent demo_ops) \<noteq> []
   \<and> table_inv (running_processes (run env_alive new_agent demo_ops))"
proof -
  have a: "running_processes (run env_alive new_agent demo_ops) \<noteq> []"
    by code_simp
  show ?thesis
    by (rule conjI [OF a table_invariant])
qed

subsection \<open>Long arithmetic and rounding\<close>

lemma wrap_long_fits: "fits_long v \<Longrightarrow> wrap_long v = v"
  by (simp add: fits_long_def wrap_long_def LONG_MIN_def LONG_MAX_def)

lemma wrap_long_add_left: "wrap_long (wrap_long a + b) = wrap_long (a + b)"
proof -
  have "(wrap_long a + b + 2 ^ 63) mod 2 ^ 64 = ((a + 2 ^ 63) mod 2 ^ 64 + b) mod 2 ^ 64"
    by (simp add: wrap_long_def)
  also have "\<dots> = (a + 2 ^ 63 + b) mod 2 ^ 64"
    by (rule mod_add_left_eq)
  also have "\<dots> = (a + b + 2 ^ 63) mod 2 ^ 64"
    by (simp add: add.assoc add.commute [of b])
  finally show ?thesis
    by (simp add: wrap_long_def)
qed

lemma total_time_wrap: "total_time c = wrap_long (counter_sum c)"
  by (simp add: total_time_def counter_sum_def long_add_def wrap_long_add_left)

lemma idle_time_wrap: "idle_time c = wrap_long (idle_sum c)"
  by (simp add: idle_time_def idle_sum_def long_add_def)

lemma percent_used_not_negative:
  "0 < b \<Longrightarrow> a \<le> b \<Longrightarrow> \<not> is_negative (percent_used a b)"
  by (simp add: percent_used_def of_long_def is_negative_def field_simps)

text \<open>
  The signs and bounds proved below are proved of exact values, but they are chosen so
  that rounding keeps them: whatever \<open>rnd\<close> a conversion or an operation applies to its
  exact result, as long as it is monotone and leaves 0, 1 and 100 alone (as rounding
  to the nearest double does), \<^verbatim>\<open>100.0 * (1.0 - (double)a / b)\<close> is at least 0 when
  \<open>a \<le> b\<close> and at most 100 when \<open>0 \<le> a\<close>, for \<open>0 < b\<close>.
\<close>

lemma percent_bounds_any_rounding:
  fixes rnd :: "real \<Rightarrow> real"
  assumes m: "mono rnd" and r0: "rnd 0 = 0" and r1: "rnd 1 = 1" and r100: "rnd 100 = 100"
    and b: "0 < b"
  shows "a \<le> b \<Longrightarrow>
           0 \<le> rnd (100 * rnd (1 - rnd (rnd (real_of_int a) / rnd (real_of_int b))))"
    and "0 \<le> a \<Longrightarrow>
           rnd (100 * rnd (1 - rnd (rnd (real_of_int a) / rnd (real_of_int b)))) \<le> 100"
proof -
  from b have "1 \<le> real_of_int b" by simp
  with m r1 have pb: "1 \<le> rnd (real_of_int b)"
    by (metis monoD)
  {
    assume "a \<le> b"
    then have "rnd (real_of_int a) \<le> rnd (real_of_int b)"
      using m by (simp add: monoD)
    with pb have "rnd (real_of_int a) / rnd (real_of_int b) \<le> 1"
      by (simp add: field_simps)
    with m r1 have "rnd (rnd (real_of_int a) / rnd (real_of_int b)) \<le> 1"
      by (metis monoD)
    then have "0 \<le> 1 - rnd (rnd (real_of_int a) / rnd (real_of_int b))"
      by simp
    with m r0 have "0 \<le> rnd (1 - rnd (rnd (real_of_int a) / rnd (real_of_int b)))"
      by (metis monoD)
    then have "0 \<le> 100 * rnd (1 - rnd (rnd (real_of_int a) / rnd (real_of_int b)))"
      by simp
    with m r0
    show "0 \<le> rnd (100 * rnd (1 - rnd (rnd (real_of_int a) / rnd (real_of_int b))))"
      by (metis monoD)
  }
  {
    assume "0 \<le> a"
    then have "0 \<le> rnd (real_of_int a)"
      using m r0 by (metis monoD of_int_0_le_iff)
    with pb have "0 \<le> rnd (real_of_int a) / rnd (real_of_int b)"
      by simp
    with m r0 have "0 \<le> rnd (rnd (real_of_int a) / rnd (real_of_int b))"
      by (metis monoD)
    then have "1 - rnd (rnd (real_of_int a) / rnd (real_of_int b)) \<le> 1"
      by simp
    with m r1 have "rnd (1 - rnd (rnd (real_of_int a) / rnd (real_of_int b))) \<le> 1"
      by (metis monoD)
    then have "100 * rnd (1 - rnd (rnd (real_of_int a) / rnd (real_of_int b))) \<le> 100"
      by simp
    with m r100
    show "rnd (100 * rnd (1 - rnd (rnd (real_of_int a) / rnd (real_of_int b)))) \<le> 100"
      by (metis monoD)
  }
qed

subsection \<open>CPU usage\<close>

lemma cpu_usage_cases:
  "fst (calculate_cpu_usage E st) =
     (case read_cpu_times E (history st @ [Open ''/proc/stat'']) of
        None \<Rightarrow> Fin 0
      | Some c \<Rightarrow>
          if 0 < prev_total_time st \<and> 0 < long_sub (total_time c) (prev_total_time st)
          then percent_used (long_sub (idle_time c) (prev_idle_time st))
                 (long_sub (total_time c) (prev_total_time st))
          else Fin 0)"
  by (simp add: calculate_cpu_usage_def log_event_def Let_def split: option.splits)

lemma cpu_usage_stores:
  "read_cpu_times E (history st @ [Open ''/proc/stat'']) = Some c \<Longrightarrow>
   prev_total_time (snd (calculate_cpu_usage E st)) = total_time c
   \<and> prev_idle_time (snd (calculate_cpu_usage E st)) = idle_time c"
  by (simp add: calculate_cpu_usage_def log_event_def Let_def)

text \<open>
  C3, as the code has it. The value \<open>calculate_cpu_usage\<close> returns is always finite,
  but nothing clamps it, and it can be negative. It is negative only when a previous
  total above 0 is stored and idle plus iowait has grown by more than the total has,
  the total having grown (both differences as the agent computes them); so it is not
  negative whenever idle plus iowait has grown by no more than the total.
\<close>

theorem cpu_usage_finite_sign:
  "is_finite (fst (calculate_cpu_usage E st))
   \<and> (is_negative (fst (calculate_cpu_usage E st)) \<longrightarrow>
       (case read_cpu_times E (history st @ [Open ''/proc/stat'']) of
          None \<Rightarrow> False
        | Some c \<Rightarrow>
            0 < prev_total_time st
            \<and> 0 < long_sub (total_time c) (prev_total_time st)
            \<and> long_sub (total_time c) (prev_total_time st)
                < long_sub (idle_time c) (prev_idle_time st)))"
proof (cases "read_cpu_times E (history st @ [Open ''/proc/stat''])")
  case None
  then show ?thesis
    by (simp add: cpu_usage_cases is_finite_def is_negative_def)
next
  case (Some c)
  show ?thesis
  proof (cases "0 < prev_total_time st \<and> 0 < long_sub (total_time c) (prev_total_time st)")
    case True
    with Some have v: "fst (calculate_cpu_usage E st) =
        percent_used (long_sub (idle_time c) (prev_idle_time st))
          (long_sub (total_time c) (prev_total_time st))"
      by (simp add: cpu_usage_cases)
    from True have f: "is_finite
        (percent_used (long_sub (idle_time c) (prev_idle_time st))
           (long_sub (total_time c) (prev_total_time st)))"
      by (simp add: percent_used_pos is_finite_def)
    from True have n: "is_negative
        (percent_used (long_sub (idle_time c) (prev_idle_time st))
           (long_sub (total_time c) (prev_total_time st))) \<Longrightarrow>
        long_sub (total_time c) (prev_total_time st)
          < long_sub (idle_time c) (prev_idle_time st)"
      using percent_used_not_negative
        [of "long_sub (total_time c) (prev_total_time st)"
            "long_sub (idle_time c) (prev_idle_time st)"]
      by force
    from Some True f n show ?thesis
      by (auto simp: v)
  next
    case False
    with Some show ?thesis
      by (auto simp: cpu_usage_cases is_finite_def is_negative_def)
  qed
qed

theorem cpu_usage_finite_sign_witness:
  "is_finite (fst (calculate_cpu_usage (env_stat stat_50_50 stat_40_80)
          (after_first_read (env_stat stat_50_50 stat_40_80))))
   \<and> is_negative (fst (calculate_cpu_usage (env_stat stat_50_50 stat_40_80)
          (after_first_read (env_stat stat_50_50 stat_40_80))))
   \<and> read_cpu_times (env_stat stat_50_50 stat_40_80)
       (history (after_first_read (env_stat stat_50_50 stat_40_80)) @ stat_open)
     = Some (sample 40 80)
   \<and> 0 < prev_total_time (after_first_read (env_stat stat_50_50 stat_40_80))
   \<and> long_sub (total_time (sample 40 80))
        (prev_total_time (after_first_read (env_stat stat_50_50 stat_40_80))) = 20
   \<and> long_sub (idle_time (sample 40 80))
        (prev_idle_time (after_first_read (env_stat stat_50_50 stat_40_80))) = 30"
proof -
  have n: "is_negative (fst (calculate_cpu_usage (env_stat stat_50_50 stat_40_80)
             (after_first_read (env_stat stat_50_50 stat_40_80))))"
    by code_simp
  have r: "read_cpu_times (env_stat stat_50_50 stat_40_80)
             (history (after_first_read (env_stat stat_50_50 stat_40_80))
                @ [Open ''/proc/stat'']) = Some (sample 40 80)"
    by code_simp
  have t: "long_sub (total_time (sample 40 80))
             (prev_total_time (after_first_read (env_stat stat_50_50 stat_40_80))) = 20"
    by code_simp
  have i: "long_sub (idle_time (sample 40 80))
             (prev_idle_time (after_first_read (env_stat stat_50_50 stat_40_80))) = 30"
    by code_simp
  show ?thesis
    using n r t i
      cpu_usage_finite_sign [of "env_stat stat_50_50 stat_40_80"
        "after_first_read (env_stat stat_50_50 stat_40_80)"]
    by (simp add: stat_open_def)
qed

text \<open>
  The specification has the value never negative (C3). That does not hold: the first read
  sees a total of 100 with 50 idle, the second a total of 110 with 70 idle, and the
  value returned for the second is -100.
\<close>

theorem cpu_usage_negative_counterexample:
  "fst (calculate_cpu_usage (env_stat stat_50_50 stat_40_70)
          (after_first_read (env_stat stat_50_50 stat_40_70))) = Fin (- 100)
   \<and> is_negative (fst (calculate_cpu_usage (env_stat stat_50_50 stat_40_70)
          (after_first_read (env_stat stat_50_50 stat_40_70))))"
  by code_simp

text \<open>
  C5, as the code has it. Let a read deliver the sample \<open>c0\<close>, and let the next read,
  made in any later state that still holds what the first one stored, deliver \<open>c1\<close>.
  Let the totals of the two samples (the sums of their eight counters), their idle
  times with iowait, and the differences of these between the samples all fit a
  \<^verbatim>\<open>long\<close>. When the total of \<open>c0\<close> is above 0 and the total of \<open>c1\<close> is above that of
  \<open>c0\<close>, the value returned is the specification's formula, which then is
  \<open>100 * (1 - \<Delta>(idle + iowait) / \<Delta>total)\<close>; in every other case it is 0. The first
  read of a new agent returns 0.
\<close>

theorem cpu_usage_successive_reads:
  assumes "read_cpu_times E (history st @ [Open ''/proc/stat'']) = Some c0"
    and "prev_total_time st2 = prev_total_time (snd (calculate_cpu_usage E st))"
    and "prev_idle_time st2 = prev_idle_time (snd (calculate_cpu_usage E st))"
    and "read_cpu_times E (history st2 @ [Open ''/proc/stat'']) = Some c1"
    and "fits_long (counter_sum c0)" and "fits_long (counter_sum c1)"
    and "fits_long (counter_sum c1 - counter_sum c0)"
    and "fits_long (idle_sum c0)" and "fits_long (idle_sum c1)"
    and "fits_long (idle_sum c1 - idle_sum c0)"
  shows "fst (calculate_cpu_usage E st2) =
           (if 0 < counter_sum c0 \<and> counter_sum c0 < counter_sum c1
            then spec_cpu_percent c0 c1 else Fin 0)
       \<and> (counter_sum c0 < counter_sum c1 \<longrightarrow>
            spec_cpu_percent c0 c1 =
              Fin (100 * (1 - real_of_int (idle_sum c1 - idle_sum c0)
                              / real_of_int (counter_sum c1 - counter_sum c0))))
       \<and> fst (calculate_cpu_usage E new_agent) = Fin 0"
proof -
  from assms(5,6,8,9)
  have w: "total_time c0 = counter_sum c0" "total_time c1 = counter_sum c1"
    "idle_time c0 = idle_sum c0" "idle_time c1 = idle_sum c1"
    by (simp_all add: total_time_wrap idle_time_wrap wrap_long_fits)
  from cpu_usage_stores [OF assms(1)] assms(2,3) w
  have p: "prev_total_time st2 = counter_sum c0" "prev_idle_time st2 = idle_sum c0"
    by simp_all
  from assms(7,10) w
  have d: "long_sub (total_time c1) (counter_sum c0) = counter_sum c1 - counter_sum c0"
    "long_sub (idle_time c1) (idle_sum c0) = idle_sum c1 - idle_sum c0"
    by (simp_all add: long_sub_def wrap_long_fits)
  have a: "fst (calculate_cpu_usage E st2) =
           (if 0 < counter_sum c0 \<and> counter_sum c0 < counter_sum c1
            then spec_cpu_percent c0 c1 else Fin 0)"
    using assms(4) p d
    by (simp add: cpu_usage_cases spec_cpu_percent_def percent_used_def of_long_def)
  have b: "counter_sum c0 < counter_sum c1 \<longrightarrow>
            spec_cpu_percent c0 c1 =
              Fin (100 * (1 - real_of_int (idle_sum c1 - idle_sum c0)
                              / real_of_int (counter_sum c1 - counter_sum c0)))"
    by (simp add: spec_cpu_percent_def)
  have c: "fst (calculate_cpu_usage E new_agent) = Fin 0"
    by (simp add: cpu_usage_cases new_agent_def split: option.splits)
  from a b c show ?thesis by simp
qed

theorem cpu_usage_successive_reads_witness:
  "read_cpu_times (env_stat stat_50_50 stat_80_70) (history new_agent @ stat_open)
     = Some (sample 50 50)
   \<and> read_cpu_times (env_stat stat_50_50 stat_80_70)
       (history (after_first_read (env_stat stat_50_50 stat_80_70)) @ stat_open)
     = Some (sample 80 70)
   \<and> fits_long (counter_sum (sample 50 50)) \<and> fits_long (counter_sum (sample 80 70))
   \<and> fits_long (counter_sum (sample 80 70) - counter_sum (sample 50 50))
   \<and> fits_long (idle_sum (sample 50 50)) \<and> fits_long (idle_sum (sample 80 70))
   \<and> fits_long (idle_sum (sample 80 70) - idle_sum (sample 50 50))
   \<and> 0 < counter_sum (sample 50 50)
   \<and> counter_sum (sample 50 50) < counter_sum (sample 80 70)
   \<and> fst (calculate_cpu_usage (env_stat stat_50_50 stat_80_70)
            (after_first_read (env_stat stat_50_50 stat_80_70)))
     = spec_cpu_percent (sample 50 50) (sample 80 70)
   \<and> spec_cpu_percent (sample 50 50) (sample 80 70) = Fin 60"
proof -
  have r0: "read_cpu_times (env_stat stat_50_50 stat_80_70)
              (history new_agent @ [Open ''/proc/stat'']) = Some (sample 50 50)"
    by code_simp
  have r1: "read_cpu_times (env_stat stat_50_50 stat_80_70)
              (history (after_first_read (env_stat stat_50_50 stat_80_70))
                 @ [Open ''/proc/stat'']) = Some (sample 80 70)"
    by code_simp
  have t: "counter_sum (sample 50 50) = 100" "counter_sum (sample 80 70) = 150"
    "idle_sum (sample 50 50) = 50" "idle_sum (sample 80 70) = 70"
    by (simp_all add: counter_sum_def idle_sum_def sample_def)
  have f: "fits_long (counter_sum (sample 50 50))" "fits_long (counter_sum (sample 80 70))"
    "fits_long (counter_sum (sample 80 70) - counter_sum (sample 50 50))"
    "fits_long (idle_sum (sample 50 50))" "fits_long (idle_sum (sample 80 70))"
    "fits_long (idle_sum (sample 80 70) - idle_sum (sample 50 50))"
    by (simp_all add: t fits_long_def LONG_MIN_def LONG_MAX_def)
  have p: "prev_total_time (after_first_read (env_stat stat_50_50 stat_80_70)) =
             prev_total_time (snd (calculate_cpu_usage (env_stat stat_50_50 stat_80_70) new_agent))"
    "prev_idle_time (after_first_read (env_stat stat_50_50 stat_80_70)) =
             prev_idle_time (snd (calculate_cpu_usage (env_stat stat_50_50 stat_80_70) new_agent))"
    by (simp_all add: after_first_read_def)
  from cpu_usage_successive_reads [OF r0 p r1 f]
  show ?thesis
    using r0 r1 f t by (simp add: stat_open_def)
qed

text \<open>
  The specification has the formula for every pair of successive reads (C5). That does
  not hold: the first read sees counters that are all 0, the second a total of 20 with 10
  idle. The formula gives 50; the agent, which takes a stored total of 0 to mean that
  there is no previous sample, returns 0.
\<close>

theorem cpu_usage_formula_counterexample:
  "read_cpu_times (env_stat stat_zero stat_10_10) (history new_agent @ stat_open)
     = Some (sample 0 0)
   \<and> read_cpu_times (env_stat stat_zero stat_10_10)
       (history (after_first_read (env_stat stat_zero stat_10_10)) @ stat_open)
     = Some (sample 10 10)
   \<and> spec_cpu_percent (sample 0 0) (sample 10 10) = Fin 50
   \<and> fst (calculate_cpu_usage (env_stat stat_zero stat_10_10)
            (after_first_read (env_stat stat_zero stat_10_10))) = Fin 0"
  by code_simp

text \<open>
  C6. When the sample read has the total that is stored as the previous one, the value
  returned is the finite number 0: the division is not reached.
\<close>

theorem cpu_usage_zero_delta:
  assumes "read_cpu_times E (history st @ [Open ''/proc/stat'']) = Some c"
    and "total_time c - prev_total_time st = 0"
  shows "fst (calculate_cpu_usage E st) = Fin 0"
proof -
  from assms(2) have "long_sub (total_time c) (prev_total_time st) = 0"
    by (simp add: long_sub_def wrap_long_def)
  with assms(1) show ?thesis
    by (simp add: cpu_usage_cases)
qed

theorem cpu_usage_zero_delta_witness:
  "read_cpu_times (env_stat stat_50_50 stat_50_50)
     (history (after_first_read (env_stat stat_50_50 stat_50_50)) @ stat_open)
     = Some (sample 50 50)
   \<and> total_time (sample 50 50)
       - prev_total_time (after_first_read (env_stat stat_50_50 stat_50_50)) = 0
   \<and> fst (calculate_cpu_usage (env_stat stat_50_50 stat_50_50)
            (after_first_read (env_stat stat_50_50 stat_50_50))) = Fin 0"
proof -
  have r: "read_cpu_times (env_stat stat_50_50 stat_50_50)
             (history (after_first_read (env_stat stat_50_50 stat_50_50))
                @ [Open ''/proc/stat'']) = Some (sample 50 50)"
    by code_simp
  have d: "total_time (sample 50 50)
             - prev_total_time (after_first_read (env_stat stat_50_50 stat_50_50)) = 0"
    by code_simp
  show ?thesis
    using r d cpu_usage_zero_delta [OF r d] by (simp add: stat_open_def)
qed

subsection \<open>Memory usage\<close>

lemma memory_usage_cases:
  "fst (calculate_memory_usage E st) =
     (case file_text E (history st @ [Open ''/proc/meminfo'']) of
        None \<Rightarrow> Fin 0
      | Some text \<Rightarrow>
          if 0 < fst (scan_meminfo (getlines text) (0, 0))
          then percent_used (snd (scan_meminfo (getlines text) (0, 0)))
                 (fst (scan_meminfo (getlines text) (0, 0)))
          else Fin 0)"
  by (simp add: calculate_memory_usage_def log_event_def Let_def case_prod_beta
      split: option.splits)

text \<open>
  C4, as the code has it. With a readable meminfo and a parsed total above 0 the value
  returned is a finite number, and it lies in [0, 100] whenever the parsed available
  memory lies between 0 and the total. Nothing clamps it: for other available values
  it can lie outside.
\<close>

theorem memory_usage_range:
  assumes "file_text E (history st @ [Open ''/proc/meminfo'']) = Some text"
    and "scan_meminfo (getlines text) (0, 0) = (tm, am)"
    and "0 < tm"
    and "0 \<le> am" and "am \<le> tm"
  shows "\<exists>r. fst (calculate_memory_usage E st) = Fin r \<and> 0 \<le> r \<and> r \<le> 100"
proof -
  from assms have "fst (calculate_memory_usage E st) =
      Fin (100 * (1 - real_of_int am / real_of_int tm))"
    by (simp add: memory_usage_cases percent_used_pos)
  moreover from assms(3,4,5)
  have "0 \<le> 100 * (1 - real_of_int am / real_of_int tm)
         \<and> 100 * (1 - real_of_int am / real_of_int tm) \<le> 100"
    by (auto simp: field_simps)
  ultimately show ?thesis by blast
qed

theorem memory_usage_range_witness:
  "file_text (scripted_env [Some meminfo_half]) (history new_agent @ meminfo_open)
     = Some meminfo_half
   \<and> scan_meminfo (getlines meminfo_half) (0, 0) = (100, 50)
   \<and> (\<exists>r. fst (calculate_memory_usage (scripted_env [Some meminfo_half]) new_agent) = Fin r
           \<and> 0 \<le> r \<and> r \<le> 100)"
proof -
  have f: "file_text (scripted_env [Some meminfo_half])
             (history new_agent @ [Open ''/proc/meminfo'']) = Some meminfo_half"
    by (simp add: scripted_env_def new_agent_def is_open_event_def)
  have s: "scan_meminfo (getlines meminfo_half) (0, 0) = (100, 50)"
    by code_simp
  from memory_usage_range [OF f s]
  show ?thesis
    using f s by (auto simp: meminfo_open_def)
qed

text \<open>
  The specification has the value in [0, 100] whatever the available memory parsed
  (C4). That does not hold: with a total of 100 kB and 200 kB available the value returned
  is -100.
\<close>

theorem memory_usage_range_counterexample:
  "scan_meminfo (getlines meminfo_over) (0, 0) = (100, 200)
   \<and> fst (calculate_memory_usage (scripted_env [Some meminfo_over]) new_agent) = Fin (- 100)"
  by code_simp

text \<open>
  C7. \<open>calculate_memory_usage\<close> returns \<open>100 * (1 - available / total)\<close> when the
  parsed total is above 0, and 0 when the parsed total is 0 or meminfo cannot be
  opened.
\<close>

theorem memory_usage_value:
  "(file_text E (history st @ [Open ''/proc/meminfo'']) = None \<longrightarrow>
      fst (calculate_memory_usage E st) = Fin 0)
   \<and> (\<forall>text tm am.
        file_text E (history st @ [Open ''/proc/meminfo'']) = Some text \<longrightarrow>
        scan_meminfo (getlines text) (0, 0) = (tm, am) \<longrightarrow>
          (0 < tm \<longrightarrow>
             fst (calculate_memory_usage E st) =
               Fin (100 * (1 - real_of_int am / real_of_int tm)))
          \<and> (tm = 0 \<longrightarrow> fst (calculate_memory_usage E st) = Fin 0))"
  by (simp add: memory_usage_cases percent_used_pos)

theorem memory_usage_value_witness:
  "file_text (scripted_env [Some meminfo_half]) (history new_agent @ meminfo_open)
     = Some meminfo_half
   \<and> scan_meminfo (getlines meminfo_half) (0, 0) = (100, 50)
   \<and> fst (calculate_memory_usage (scripted_env [Some meminfo_half]) new_agent) = Fin 50
   \<and> file_text (scripted_env [Some meminfo_no_total]) (history new_agent @ meminfo_open)
     = Some meminfo_no_total
   \<and> scan_meminfo (getlines meminfo_no_total) (0, 0) = (0, 50)
   \<and> fst (calculate_memory_usage (scripted_env [Some meminfo_no_total]) new_agent) = Fin 0
   \<and> file_text (scripted_env [None]) (history new_agent @ meminfo_open) = None
   \<and> fst (calculate_memory_usage (scripted_env [None]) new_agent) = Fin 0"
proof -
  have f1: "file_text (scripted_env [Some meminfo_half])
              (history new_agent @ [Open ''/proc/meminfo'']) = Some meminfo_half"
    by (simp add: scripted_env_def new_agent_def is_open_event_def)
  have s1: "scan_meminfo (getlines meminfo_half) (0, 0) = (100, 50)"
    by code_simp
  have f2: "file_text (scripted_env [Some meminfo_no_total])
              (history new_agent @ [Open ''/proc/meminfo'']) = Some meminfo_no_total"
    by (simp add: scripted_env_def new_agent_def is_open_event_def)
  have s2: "scan_meminfo (getlines meminfo_no_total) (0, 0) = (0, 50)"
    by code_simp
  have f3: "file_text (scripted_env [None])
              (history new_agent @ [Open ''/proc/meminfo'']) = None"
    by (simp add: scripted_env_def new_agent_def is_open_event_def)
  show ?thesis
    using f1 s1 f2 s2 f3
      memory_usage_value [of "scripted_env [Some meminfo_half]" new_agent]
      memory_usage_value [of "scripted_env [Some meminfo_no_total]" new_agent]
      memory_usage_value [of "scripted_env [None]" new_agent]
    by (simp add: meminfo_open_def)
qed

end
